theory Spec2Isabelle
  imports Main "HOL-Library.Word"
begin

section \<open>The sRGB compositor of pngfix764.c\<close>

text \<open>
  The C type \<open>unsigned int\<close> is modelled as a 32-bit word: addition, subtraction and
  multiplication wrap modulo \<open>2 ^ 32\<close>, \<open>div\<close> is unsigned division and the order is
  the unsigned one. On samples in \<open>[0, 255]\<close> the largest intermediate value of the
  function is \<open>255 * 255 + 127 = 65152\<close>, far below the modulus.
\<close>

type_synonym unsigned_int = "32 word"

text \<open>
  \<open>srgb_compose\<close> (pngfix764.c, lines 37-61): three branches on \<open>alpha\<close>; the blend
  branch computes the rounded sum in machine arithmetic and clamps it afterwards.
\<close>

definition srgb_compose :: "unsigned_int \<Rightarrow> unsigned_int \<Rightarrow> unsigned_int \<Rightarrow> unsigned_int" where
  "srgb_compose foreground alpha background =
     (if alpha = 0 then background
      else if alpha = 255 then foreground
      else
        let result = foreground + ((255 - alpha) * background + 127) div 255
        in if result > 255 then 255 else result)"

text \<open>
  The blend expression of line 55 read over the unbounded naturals, for the comparison
  with the machine computation.
\<close>

definition raw_blend :: "nat \<Rightarrow> nat \<Rightarrow> nat \<Rightarrow> nat" where
  "raw_blend f a b = f + ((255 - a) * b + 127) div 255"

section \<open>The test vectors\<close>

text \<open>\<open>struct test_vector\<close> (lines 64-70).\<close>

record test_vector =
  fg :: unsigned_int
  alpha :: unsigned_int
  bg :: unsigned_int
  expected :: unsigned_int
  desc :: string

text \<open>The table \<open>tests\<close> (lines 73-116), in the order of the source.\<close>

definition tests :: "test_vector list" where
  "tests = [
     \<lparr>fg = 0, alpha = 0, bg = 255, expected = 255,
       desc = ''transparent black on white: background only''\<rparr>,
     \<lparr>fg = 255, alpha = 0, bg = 0, expected = 0,
       desc = ''transparent white on black: background only''\<rparr>,
     \<lparr>fg = 100, alpha = 0, bg = 200, expected = 200,
       desc = ''transparent on gray: background only''\<rparr>,
     \<lparr>fg = 123, alpha = 0, bg = 45, expected = 45,
       desc = ''transparent: foreground ignored''\<rparr>,
     \<lparr>fg = 255, alpha = 255, bg = 0, expected = 255,
       desc = ''opaque white on black: foreground only''\<rparr>,
     \<lparr>fg = 0, alpha = 255, bg = 255, expected = 0,
       desc = ''opaque black on white: foreground only''\<rparr>,
     \<lparr>fg = 100, alpha = 255, bg = 200, expected = 100,
       desc = ''opaque on gray: foreground only''\<rparr>,
     \<lparr>fg = 128, alpha = 128, bg = 128, expected = 192,
       desc = ''50% gray on gray: 128 + (127*128+127)/255 = 192''\<rparr>,
     \<lparr>fg = 0, alpha = 128, bg = 255, expected = 127,
       desc = ''50% black on white: 0 + (127*255+127)/255 = 127''\<rparr>,
     \<lparr>fg = 255, alpha = 128, bg = 0, expected = 255,
       desc = ''50% white on black: 255 + 0 = 255''\<rparr>,
     \<lparr>fg = 100, alpha = 128, bg = 200, expected = 200,
       desc = ''50% blend: 100 + (127*200+127)/255 = 200''\<rparr>,
     \<lparr>fg = 134, alpha = 118, bg = 73, expected = 173,
       desc = ''PoC case 1: fg > alpha''\<rparr>,
     \<lparr>fg = 194, alpha = 140, bg = 73, expected = 227,
       desc = ''PoC case 2: fg > alpha''\<rparr>,
     \<lparr>fg = 249, alpha = 242, bg = 73, expected = 253,
       desc = ''PoC case 3: fg > alpha''\<rparr>,
     \<lparr>fg = 255, alpha = 1, bg = 255, expected = 255,
       desc = ''near-transparent white on white: clamp''\<rparr>,
     \<lparr>fg = 200, alpha = 50, bg = 200,
       expected = (if (361 :: unsigned_int) > 255 then 255 else 361),
       desc = ''overflow case: clamp to 255''\<rparr>,
     \<lparr>fg = 250, alpha = 10, bg = 250, expected = 255,
       desc = ''high values low alpha: clamp''\<rparr>,
     \<lparr>fg = 0, alpha = 254, bg = 255, expected = 1,
       desc = ''nearly opaque: (1*255+127)/255 = 1''\<rparr>,
     \<lparr>fg = 0, alpha = 253, bg = 255, expected = 2,
       desc = ''nearly opaque: (2*255+127)/255 = 2''\<rparr>,
     \<lparr>fg = 0, alpha = 1, bg = 1, expected = 1,
       desc = ''nearly transparent low bg: (254*1+127)/255 = 1''\<rparr>,
     \<lparr>fg = 0, alpha = 128, bg = 73, expected = 36,
       desc = ''transparent on default buffer''\<rparr>,
     \<lparr>fg = 128, alpha = 64, bg = 73, expected = 183,
       desc = ''partial on default buffer''\<rparr>,
     \<lparr>fg = 254, alpha = 1, bg = 254, expected = 255,
       desc = ''max non-overflow: 254 + 253 = 507 -> 255''\<rparr>,
     \<lparr>fg = 1, alpha = 254, bg = 1, expected = 1,
       desc = ''min result with alpha: 1 + 0 = 1''\<rparr>
   ]"

text \<open>
  \<open>run_tests\<close> (lines 118-152): the loop over the table as a fold that carries the
  failure counter; the printed lines are left out, the returned count is kept.
\<close>

definition run_tests :: int where
  "run_tests =
     fold (\<lambda>t failures.
             if srgb_compose (fg t) (alpha t) (bg t) \<noteq> expected t then failures + 1
             else failures) tests 0"

section \<open>Arithmetic of the blend branch\<close>

lemma sample_unat: "(x :: unsigned_int) \<le> 255 \<Longrightarrow> unat x \<le> 255"
  by (simp add: word_le_nat_alt)

lemma coverage_unat:
  assumes "(a :: unsigned_int) \<le> 255"
  shows "unat (255 - a) = 255 - unat a"
  using assms by (simp add: unat_sub)

lemma product_bound:
  assumes "(m :: nat) \<le> 255" "n \<le> 255"
  shows "(255 - m) * n \<le> 65025"
proof -
  have "(255 - m) * n \<le> 255 * 255"
    by (rule mult_le_mono) (use assms in simp_all)
  then show ?thesis by simp
qed

lemma product_unat:
  assumes "(a :: unsigned_int) \<le> 255" "(b :: unsigned_int) \<le> 255"
  shows "unat ((255 - a) * b) = (255 - unat a) * unat b"
proof -
  have "(255 - unat a) * unat b \<le> 65025"
    using assms by (intro product_bound sample_unat)
  then have "unat (255 - a) * unat b < 2 ^ LENGTH(32)"
    using assms(1) by (simp add: coverage_unat)
  then have "unat ((255 - a) * b) = unat (255 - a) * unat b"
    by (simp only: unat_mult_lem [THEN iffD1])
  then show ?thesis using assms(1) by (simp add: coverage_unat)
qed

lemma numerator_unat:
  assumes "(a :: unsigned_int) \<le> 255" "(b :: unsigned_int) \<le> 255"
  shows "unat ((255 - a) * b + 127) = (255 - unat a) * unat b + 127"
proof -
  have "(255 - unat a) * unat b \<le> 65025"
    using assms by (intro product_bound sample_unat)
  then have "unat ((255 - a) * b) + unat (127 :: unsigned_int) < 2 ^ LENGTH(32)"
    using assms by (simp add: product_unat)
  then have "unat ((255 - a) * b + 127) = unat ((255 - a) * b) + unat (127 :: unsigned_int)"
    by (simp only: unat_add_lem [THEN iffD1])
  then show ?thesis using assms by (simp add: product_unat)
qed

lemma quotient_unat:
  assumes "(a :: unsigned_int) \<le> 255" "(b :: unsigned_int) \<le> 255"
  shows "unat (((255 - a) * b + 127) div 255) = ((255 - unat a) * unat b + 127) div 255"
  using assms by (simp add: unat_div numerator_unat)

lemma quotient_bound:
  assumes "(m :: nat) \<le> 255" "n \<le> 255"
  shows "((255 - m) * n + 127) div 255 \<le> 255"
proof -
  have "(255 - m) * n + 127 \<le> 65152"
    using product_bound [OF assms] by simp
  then have "((255 - m) * n + 127) div 255 \<le> 65152 div 255"
    by (rule div_le_mono)
  then show ?thesis by simp
qed

lemma raw_unat:
  assumes "(f :: unsigned_int) \<le> 255" "(a :: unsigned_int) \<le> 255" "(b :: unsigned_int) \<le> 255"
  shows "unat (f + ((255 - a) * b + 127) div 255) =
         unat f + ((255 - unat a) * unat b + 127) div 255"
proof -
  let ?q = "((255 - a) * b + 127) div 255"
  have "unat ?q \<le> 255"
    using assms quotient_bound [of "unat a" "unat b"]
    by (simp add: quotient_unat sample_unat)
  moreover have "unat f \<le> 255" using assms(1) by (rule sample_unat)
  ultimately have "unat f + unat ?q < 2 ^ LENGTH(32)" by simp
  then have "unat (f + ?q) = unat f + unat ?q"
    by (simp only: unat_add_lem [THEN iffD1])
  then show ?thesis using assms by (simp add: quotient_unat)
qed

lemma partial_alpha:
  assumes "1 \<le> (a :: unsigned_int)" "a \<le> 254"
  shows "a \<noteq> 0" and "a \<noteq> 255" and "a \<le> 255"
  using assms by (auto simp add: word_le_nat_alt)

lemma blend_unat:
  assumes "(f :: unsigned_int) \<le> 255" "(b :: unsigned_int) \<le> 255" "1 \<le> (a :: unsigned_int)" "a \<le> 254"
  shows "unat (srgb_compose f a b) =
         min 255 (unat f + ((255 - unat a) * unat b + 127) div 255)"
proof -
  note pa = partial_alpha [OF assms(3,4)]
  have raw: "unat (f + ((255 - a) * b + 127) div 255) =
             unat f + ((255 - unat a) * unat b + 127) div 255"
    using assms(1) pa(3) assms(2) by (rule raw_unat)
  show ?thesis
    using pa(1,2) by (simp add: srgb_compose_def Let_def word_less_nat_alt raw)
qed

lemma int_blend:
  assumes "m \<le> 255"
  shows "int (min 255 (k + ((255 - m) * n + 127) div 255)) =
         min 255 (int k + ((255 - int m) * int n + 127) div 255)"
proof -
  have "int ((255 - m) * n + 127) = (255 - int m) * int n + 127"
    using assms by simp
  then have "int (((255 - m) * n + 127) div 255) = ((255 - int m) * int n + 127) div 255"
    by (simp only: zdiv_int of_nat_numeral)
  then have "int (k + ((255 - m) * n + 127) div 255) =
             int k + ((255 - int m) * int n + 127) div 255"
    by (simp only: of_nat_add)
  then show ?thesis by (simp only: of_nat_min of_nat_numeral)
qed

lemma raw_blend_bound:
  assumes "k \<le> 255" "1 \<le> m" "n \<le> 255"
  shows "(255 - m) * n + 127 \<le> 64897" and "raw_blend k m n \<le> 509"
proof -
  have "(255 - m) * n \<le> 254 * 255"
    by (rule mult_le_mono) (use assms in simp_all)
  then show num: "(255 - m) * n + 127 \<le> 64897" by simp
  then have "((255 - m) * n + 127) div 255 \<le> 64897 div 255"
    by (rule div_le_mono)
  then show "raw_blend k m n \<le> 509"
    using assms(1) by (simp add: raw_blend_def)
qed

section \<open>The compositor\<close>

text \<open>
  C1. For samples \<open>f\<close>, \<open>b\<close> in \<open>[0, 255]\<close> and \<open>1 \<le> a \<le> 254\<close>, the value returned by
  \<open>srgb_compose f a b\<close>, read as an integer, is
  \<open>min 255 (f + ((255 - a) * b + 127) div 255)\<close> with floor division on the integers:
  the raw sum, clamped to 255 when it exceeds 255.
\<close>

theorem srgb_compose_blend:
  assumes "f \<le> 255" "a \<le> 255" "b \<le> 255" "1 \<le> a" "a \<le> 254"
  shows "uint (srgb_compose f a b) =
         min 255 (uint f + ((255 - uint a) * uint b + 127) div 255)"
proof -
  have le: "unat a \<le> 255" using assms(2) by (rule sample_unat)
  have "uint (srgb_compose f a b) = int (unat (srgb_compose f a b))" by simp
  also have "\<dots> = int (min 255 (unat f + ((255 - unat a) * unat b + 127) div 255))"
    using assms(1,3,4,5) by (simp only: blend_unat)
  also have "\<dots> =
      min 255 (int (unat f) + ((255 - int (unat a)) * int (unat b) + 127) div 255)"
    using le by (rule int_blend)
  also have "\<dots> = min 255 (uint f + ((255 - uint a) * uint b + 127) div 255)"
    by simp
  finally show ?thesis .
qed

theorem srgb_compose_blend_witness:
  "(200 :: unsigned_int) \<le> 255 \<and> (50 :: unsigned_int) \<le> 255 \<and> (200 :: unsigned_int) \<le> 255
   \<and> (1 :: unsigned_int) \<le> 50 \<and> (50 :: unsigned_int) \<le> 254
   \<and> uint (srgb_compose 200 50 200) = 255
   \<and> min 255 (200 + ((255 - 50) * 200 + 127) div 255) = (255 :: int)"
  using srgb_compose_blend [of 200 50 200] by simp

text \<open>
  C2. Range closure: for \<open>f\<close>, \<open>a\<close>, \<open>b\<close> each in \<open>[0, 255]\<close> the result of
  \<open>srgb_compose f a b\<close>, read as an integer, lies in \<open>[0, 255]\<close>.
\<close>

theorem srgb_compose_range:
  assumes "f \<le> 255" "a \<le> 255" "b \<le> 255"
  shows "0 \<le> uint (srgb_compose f a b) \<and> uint (srgb_compose f a b) \<le> 255"
proof -
  have "srgb_compose f a b \<le> 255"
    using assms by (simp add: srgb_compose_def Let_def not_less)
  then have "uint (srgb_compose f a b) \<le> uint (255 :: unsigned_int)"
    by (simp only: word_le_def)
  then show ?thesis by simp
qed

theorem srgb_compose_range_witness:
  "(254 :: unsigned_int) \<le> 255 \<and> (1 :: unsigned_int) \<le> 255 \<and> (254 :: unsigned_int) \<le> 255
   \<and> 0 \<le> uint (srgb_compose 254 1 254) \<and> uint (srgb_compose 254 1 254) \<le> 255"
  using srgb_compose_range [of 254 1 254] by simp

text \<open>
  C3. Background monotonicity: for a foreground \<open>f\<close> in \<open>[0, 255]\<close> and an alpha with
  \<open>1 \<le> a \<le> 254\<close>, backgrounds \<open>b1 \<le> b2\<close> in \<open>[0, 255]\<close> give
  \<open>srgb_compose f a b1 \<le> srgb_compose f a b2\<close>.
\<close>

theorem srgb_compose_mono_background:
  assumes "f \<le> 255" "1 \<le> a" "a \<le> 254" "b1 \<le> b2" "b2 \<le> 255"
  shows "srgb_compose f a b1 \<le> srgb_compose f a b2"
proof -
  have b1: "b1 \<le> 255" using assms(4,5) by (rule order_trans)
  have "unat b1 \<le> unat b2" using assms(4) by (simp add: word_le_nat_alt)
  then have "(255 - unat a) * unat b1 + 127 \<le> (255 - unat a) * unat b2 + 127"
    by (simp add: mult_le_mono2)
  then have "((255 - unat a) * unat b1 + 127) div 255
           \<le> ((255 - unat a) * unat b2 + 127) div 255"
    by (rule div_le_mono)
  then have "min 255 (unat f + ((255 - unat a) * unat b1 + 127) div 255)
           \<le> min 255 (unat f + ((255 - unat a) * unat b2 + 127) div 255)"
    by simp
  then have "unat (srgb_compose f a b1) \<le> unat (srgb_compose f a b2)"
    using assms(1,2,3,5) b1 by (simp only: blend_unat)
  then show ?thesis by (simp add: word_le_nat_alt)
qed

theorem srgb_compose_mono_background_witness:
  "(100 :: unsigned_int) \<le> 255 \<and> (1 :: unsigned_int) \<le> 128 \<and> (128 :: unsigned_int) \<le> 254
   \<and> (73 :: unsigned_int) \<le> 200 \<and> (200 :: unsigned_int) \<le> 255
   \<and> srgb_compose 100 128 73 \<le> srgb_compose 100 128 200"
  using srgb_compose_mono_background [of 100 128 73 200] by simp

text \<open>
  C4. Transparency identity: \<open>srgb_compose f 0 b = b\<close> for every foreground and
  background, in particular for all samples in \<open>[0, 255]\<close>.
\<close>

theorem srgb_compose_transparent: "srgb_compose f 0 b = b"
  by (simp add: srgb_compose_def)

text \<open>
  C5. Opacity identity: \<open>srgb_compose f 255 b = f\<close> for every foreground and
  background, in particular for all samples in \<open>[0, 255]\<close>.
\<close>

theorem srgb_compose_opaque: "srgb_compose f 255 b = f"
  by (simp add: srgb_compose_def)

text \<open>
  C6. On the malformed premultiplied input with foreground 134 above alpha 118 and
  background 73 the function returns exactly 173.
\<close>

theorem srgb_compose_poc_case_1: "srgb_compose 134 118 73 = 173"
  by (simp add: srgb_compose_def)

text \<open>
  C7. \<open>srgb_compose 0 254 255 = 1\<close> and \<open>srgb_compose 0 253 255 = 2\<close>, so the results at
  these two adjacent alphas differ by exactly 1.
\<close>

theorem srgb_compose_rounding_boundary:
  "srgb_compose 0 254 255 = 1 \<and> srgb_compose 0 253 255 = 2
   \<and> uint (srgb_compose 0 253 255) - uint (srgb_compose 0 254 255) = 1"
  by (simp add: srgb_compose_def)

text \<open>
  C9. For \<open>f\<close>, \<open>b\<close> in \<open>[0, 255]\<close> and \<open>1 \<le> a \<le> 255\<close> the result is never below the
  foreground: \<open>f \<le> srgb_compose f a b\<close>.
\<close>

theorem srgb_compose_ge_foreground:
  assumes "f \<le> 255" "b \<le> 255" "1 \<le> a" "a \<le> 255"
  shows "f \<le> srgb_compose f a b"
proof (cases "a = 255")
  case True
  then show ?thesis by (simp add: srgb_compose_def)
next
  case False
  with assms(4) have "a < 255" by (rule le_neq_trans)
  then have "a \<le> 254" by (simp add: word_less_nat_alt word_le_nat_alt)
  then have "unat (srgb_compose f a b) =
         min 255 (unat f + ((255 - unat a) * unat b + 127) div 255)"
    using assms(1,2,3) by (simp only: blend_unat)
  moreover have "unat f \<le> 255" using assms(1) by (rule sample_unat)
  ultimately have "unat f \<le> unat (srgb_compose f a b)" by simp
  then show ?thesis by (simp add: word_le_nat_alt)
qed

theorem srgb_compose_ge_foreground_witness:
  "(134 :: unsigned_int) \<le> 255 \<and> (73 :: unsigned_int) \<le> 255
   \<and> (1 :: unsigned_int) \<le> 118 \<and> (118 :: unsigned_int) \<le> 255
   \<and> 134 \<le> srgb_compose 134 118 73"
  using srgb_compose_ge_foreground [of 134 73 118] by simp

text \<open>
  C10. For \<open>f\<close>, \<open>a\<close>, \<open>b\<close> in \<open>[0, 255]\<close> with \<open>1 \<le> a \<le> 254\<close> the unclamped value
  \<open>f + ((255 - a) * b + 127) div 255\<close> is at most 509, no step of line 55 wraps (the
  32-bit value of the difference, the product, the numerator, the quotient and the sum
  is the value of the same expression over the naturals), and the result of the
  function is the clamp of the natural-number expression.
\<close>

theorem srgb_compose_no_wraparound:
  assumes "f \<le> 255" "a \<le> 255" "b \<le> 255" "1 \<le> a" "a \<le> 254"
  shows "raw_blend (unat f) (unat a) (unat b) \<le> 509
       \<and> (255 - unat a) * unat b + 127 \<le> 64897
       \<and> unat a \<le> 255
       \<and> unat (255 - a) = 255 - unat a
       \<and> unat ((255 - a) * b) = (255 - unat a) * unat b
       \<and> unat ((255 - a) * b + 127) = (255 - unat a) * unat b + 127
       \<and> unat (((255 - a) * b + 127) div 255) = ((255 - unat a) * unat b + 127) div 255
       \<and> unat (f + ((255 - a) * b + 127) div 255) = raw_blend (unat f) (unat a) (unat b)
       \<and> unat (srgb_compose f a b) =
           (if raw_blend (unat f) (unat a) (unat b) > 255 then 255
            else raw_blend (unat f) (unat a) (unat b))"
proof -
  have f: "unat f \<le> 255" and a: "unat a \<le> 255" and b: "unat b \<le> 255"
    using assms(1,2,3) by (simp_all add: sample_unat)
  have a1: "1 \<le> unat a" using assms(4) by (simp add: word_le_nat_alt)
  note bounds = raw_blend_bound [OF f a1 b]
  have res: "unat (srgb_compose f a b) =
      (if raw_blend (unat f) (unat a) (unat b) > 255 then 255
       else raw_blend (unat f) (unat a) (unat b))"
    using assms(1,3,4,5) by (simp add: blend_unat raw_blend_def min_def)
  have raw: "unat (f + ((255 - a) * b + 127) div 255) =
             raw_blend (unat f) (unat a) (unat b)"
    using assms(1,2,3) by (simp add: raw_unat raw_blend_def)
  show ?thesis
    using bounds a res raw assms(2,3)
    by (simp only: coverage_unat product_unat numerator_unat quotient_unat simp_thms)
qed

theorem srgb_compose_no_wraparound_witness:
  "(255 :: unsigned_int) \<le> 255 \<and> (1 :: unsigned_int) \<le> 255
   \<and> (1 :: unsigned_int) \<le> 1 \<and> (1 :: unsigned_int) \<le> 254
   \<and> raw_blend (unat (255 :: unsigned_int)) (unat (1 :: unsigned_int))
        (unat (255 :: unsigned_int)) = 509
   \<and> unat ((255 :: unsigned_int) + ((255 - 1) * 255 + 127) div 255) = 509
   \<and> unat (srgb_compose 255 1 255) = 255"
  using srgb_compose_no_wraparound [of 255 1 255] by (simp add: raw_blend_def)

section \<open>The test table\<close>

lemma run_tests_pass: "run_tests = 0"
  by (simp add: run_tests_def tests_def srgb_compose_def)

text \<open>
  C8. The vectors of the table whose background is the sentinel 73, with their
  foreground, alpha and description, in table order: every one has an alpha strictly
  between 0 and 255, the one described as transparent has alpha 128, and no vector
  with background 73 has alpha 0.
\<close>

theorem tests_sentinel_background:
  "map (\<lambda>t. (fg t, alpha t, desc t)) (filter (\<lambda>t. bg t = 73) tests) =
     [(134, 118, ''PoC case 1: fg > alpha''),
      (194, 140, ''PoC case 2: fg > alpha''),
      (249, 242, ''PoC case 3: fg > alpha''),
      (0, 128, ''transparent on default buffer''),
      (128, 64, ''partial on default buffer'')]
   \<and> filter (\<lambda>t. bg t = 73 \<and> alpha t = 0) tests = []
   \<and> filter (\<lambda>t. bg t = 73 \<and> 0 < alpha t \<and> alpha t < 255) tests \<noteq> []"
  by (simp add: tests_def)

end
